theory Spec2Isabelle
  imports Main "HOL-Library.Product_Lexorder" "HOL-Library.Sublist"
begin

section \<open>Python values\<close>

text \<open>
  A Python \<open>str\<close> is a sequence of Unicode code points, modelled as a list of naturals.
  \<open>lit\<close> writes an ASCII literal; a character beyond ASCII is given by its code point
  (\<open>0xED\<close> is the i with acute accent of \<open>Per\<dots>odo\<close>).
\<close>

type_synonym str = "nat list"

definition lit :: "string \<Rightarrow> str" where
  "lit s = map of_char s"

text \<open>Exceptions the scripts can raise, as values.\<close>

datatype error = KeyError | ValueError | UnicodeEncodeError | UnicodeDecodeError

section \<open>chart\_script.py: the timeline chart\<close>

subsection \<open>The data\<close>

text \<open>
  One dictionary of \<open>data["fases"]\<close>: six keys, always the same. The two date fields
  have type parameters: they hold strings in the literal data and timestamps after
  \<open>pd.to_datetime\<close>.
\<close>

record ('a, 'b) fase =
  nome :: str
  periodo :: str
  modal :: str
  status :: str
  inicio :: 'a
  fim :: 'b

definition fases :: "(str, str) fase list" where
  "fases =
    [\<lparr>nome = lit ''Fase 1'', periodo = lit ''Out-Dez 2024'',
      modal = lit ''Modal Mar'' @ [0xED] @ lit ''timo'', status = lit ''Implementado'',
      inicio = lit ''2024-10-01'', fim = lit ''2024-12-31''\<rparr>,
     \<lparr>nome = lit ''Fase 2A'', periodo = lit ''Jan-Mar 2025'',
      modal = lit ''Modal A'' @ [0xE9] @ lit ''reo'', status = lit ''Implementado'',
      inicio = lit ''2025-01-01'', fim = lit ''2025-03-31''\<rparr>,
     \<lparr>nome = lit ''Fase 2B'', periodo = lit ''Abr-Jun 2025'',
      modal = lit ''Modal A'' @ [0xE9] @ lit ''reo (cont.)'', status = lit ''Em Andamento'',
      inicio = lit ''2025-04-01'', fim = lit ''2025-06-30''\<rparr>,
     \<lparr>nome = lit ''Fase 3A'', periodo = lit ''Jul-Set 2025'',
      modal = lit ''Modal Terrestre'', status = lit ''Em Andamento'',
      inicio = lit ''2025-07-01'', fim = lit ''2025-09-30''\<rparr>,
     \<lparr>nome = lit ''Fase 3B'', periodo = lit ''Out-Dez 2025'',
      modal = lit ''Zona Franca Manaus'', status = lit ''Previsto'',
      inicio = lit ''2025-10-01'', fim = lit ''2025-12-31''\<rparr>]"

text \<open>
  A row of the data frame once the \<open>color\<close> column has been added. A cell of that
  column is a color string or the missing value NaN (\<open>None\<close> here).
\<close>

record ('a, 'b) row = "('a, 'b) fase" +
  color :: "str option"

subsection \<open>Date conversion\<close>

text \<open>
  \<open>df['inicio'] = pd.to_datetime(df['inicio'])\<close> converts a whole column and raises at
  the first string it cannot parse. The parser itself is pandas code, so it is a
  parameter \<open>parse\<close> of the model; \<open>iso_date\<close> below is its instance on the date format
  of the script's literals.
\<close>

fun sequence :: "(error + 'a) list \<Rightarrow> error + 'a list" where
  "sequence [] = Inr []"
| "sequence (Inl e # _) = Inl e"
| "sequence (Inr v # rs) = (case sequence rs of Inl e \<Rightarrow> Inl e | Inr vs \<Rightarrow> Inr (v # vs))"

definition set_inicio :: "('a, 'b) fase \<Rightarrow> error + 'd \<Rightarrow> error + ('d, 'b) fase" where
  "set_inicio r v = (case v of Inl e \<Rightarrow> Inl e | Inr d \<Rightarrow>
     Inr \<lparr>nome = nome r, periodo = periodo r, modal = modal r, status = status r,
          inicio = d, fim = fim r\<rparr>)"

definition set_fim :: "('a, 'b) fase \<Rightarrow> error + 'd \<Rightarrow> error + ('a, 'd) fase" where
  "set_fim r v = (case v of Inl e \<Rightarrow> Inl e | Inr d \<Rightarrow>
     Inr \<lparr>nome = nome r, periodo = periodo r, modal = modal r, status = status r,
          inicio = inicio r, fim = d\<rparr>)"

definition to_datetime_inicio ::
    "(str \<Rightarrow> error + 'd) \<Rightarrow> (str, 'b) fase list \<Rightarrow> error + ('d, 'b) fase list" where
  "to_datetime_inicio parse df = sequence (map (\<lambda>r. set_inicio r (parse (inicio r))) df)"

definition to_datetime_fim ::
    "(str \<Rightarrow> error + 'd) \<Rightarrow> ('a, str) fase list \<Rightarrow> error + ('a, 'd) fase list" where
  "to_datetime_fim parse df = sequence (map (\<lambda>r. set_fim r (parse (fim r))) df)"

text \<open>
  A timestamp at midnight is its calendar date (year, month, day), ordered
  lexicographically. \<open>iso_date\<close> reads the form \<open>YYYY-MM-DD\<close> and checks the calendar;
  the years are 1678 to 2261, which a nanosecond timestamp holds in full. Any other
  string is reported as \<open>ValueError\<close> by this instance, which is used for closed examples
  only.
\<close>

type_synonym timestamp = "nat \<times> nat \<times> nat"

definition digit :: "nat \<Rightarrow> bool" where
  "digit c = (48 \<le> c \<and> c \<le> 57)"

definition leap_year :: "nat \<Rightarrow> bool" where
  "leap_year y = (y mod 4 = 0 \<and> (y mod 100 \<noteq> 0 \<or> y mod 400 = 0))"

definition days_in_month :: "nat \<Rightarrow> nat \<Rightarrow> nat" where
  "days_in_month y m =
     (if m = 2 then (if leap_year y then 29 else 28)
      else if m = 4 \<or> m = 6 \<or> m = 9 \<or> m = 11 then 30 else 31)"

fun iso_date :: "str \<Rightarrow> error + timestamp" where
  "iso_date [y1, y2, y3, y4, s1, m1, m2, s2, d1, d2] =
     (let y = (y1 - 48) * 1000 + (y2 - 48) * 100 + (y3 - 48) * 10 + (y4 - 48);
          m = (m1 - 48) * 10 + (m2 - 48);
          d = (d1 - 48) * 10 + (d2 - 48)
      in if list_all digit [y1, y2, y3, y4, m1, m2, d1, d2] \<and> s1 = 45 \<and> s2 = 45
            \<and> 1678 \<le> y \<and> y \<le> 2261 \<and> 1 \<le> m \<and> m \<le> 12 \<and> 1 \<le> d \<and> d \<le> days_in_month y m
         then Inr (y, m, d) else Inl ValueError)"
| "iso_date _ = Inl ValueError"

subsection \<open>The status colors\<close>

text \<open>
  The dictionary \<open>status_colors\<close>, in insertion order, and
  \<open>df['color'] = df['status'].map(status_colors)\<close>: \<open>Series.map\<close> with a dictionary
  looks every value up and puts NaN where the key is absent. It raises nothing.
\<close>

definition status_colors :: "(str \<times> str) list" where
  "status_colors =
    [(lit ''Implementado'', lit ''#2E8B57''),
     (lit ''Em Andamento'', lit ''#1FB8CD''),
     (lit ''Previsto'', lit ''#D2BA4C'')]"

definition resolve_color :: "str \<Rightarrow> str option" where
  "resolve_color s = map_of status_colors s"

definition add_color :: "('a, 'b) fase \<Rightarrow> ('a, 'b) row" where
  "add_color r =
     \<lparr>nome = nome r, periodo = periodo r, modal = modal r, status = status r,
      inicio = inicio r, fim = fim r, color = resolve_color (status r)\<rparr>"

definition map_status_colors :: "('a, 'b) fase list \<Rightarrow> ('a, 'b) row list" where
  "map_status_colors df = map add_color df"

subsection \<open>The figure\<close>

text \<open>
  The keyword arguments of one \<open>go.Scatter\<close> trace, and the layout the script sets.
  The figure of the model is this description as it is handed to plotly; plotly's own
  checks of the arguments and the rasterisation by \<open>write_image\<close> are library code and
  not part of it. The two floats of the legend position are left out.
\<close>

record 'd scatter =
  scatter_x :: "'d list"
  scatter_y :: "str list"
  mode :: str
  line_color :: "str option"
  line_width :: nat
  marker_color :: "str option"
  marker_size :: nat
  name :: str
  legendgroup :: str
  showlegend :: bool
  hovertemplate :: str

record layout =
  title :: str
  xaxis_title :: str
  yaxis_title :: str
  legend_orientation :: str
  legend_yanchor :: str
  legend_xanchor :: str
  xaxis_type :: str
  xaxis_tickformat :: str
  xaxis_range :: "str list option"
  yaxis_categoryorder :: str
  yaxis_categoryarray :: "str list"

record 'd figure =
  fig_data :: "'d scatter list"
  fig_layout :: layout

text \<open>
  The body of the loop \<open>for i, row in df.iterrows()\<close>: one trace is appended to
  \<open>fig.data\<close>; \<open>showlegend\<close> asks whether the status is not yet the name of a trace
  added before.
\<close>

definition hover :: "('a, 'b, 'z) fase_scheme \<Rightarrow> str" where
  "hover r =
     lit ''<b>%{y}</b><br>'' @
     (lit ''Modal: '' @ modal r @ lit ''<br>'') @
     (lit ''Status: '' @ status r @ lit ''<br>'') @
     (lit ''Per'' @ [0xED] @ lit ''odo: '' @ periodo r @ lit ''<br>'') @
     lit ''<extra></extra>''"

definition add_trace :: "'d scatter list \<Rightarrow> ('d, 'd) row \<Rightarrow> 'd scatter list" where
  "add_trace traces r = traces @
     [\<lparr>scatter_x = [inicio r, fim r],
       scatter_y = [nome r, nome r],
       mode = lit ''lines+markers'',
       line_color = color r, line_width = 8,
       marker_color = color r, marker_size = 10,
       name = status r,
       legendgroup = status r,
       showlegend = (status r \<notin> set (map name traces)),
       hovertemplate = hover r\<rparr>]"

definition add_traces :: "('d, 'd) row list \<Rightarrow> 'd scatter list" where
  "add_traces df = foldl add_trace [] df"

definition update_layout :: "('d, 'd) row list \<Rightarrow> layout" where
  "update_layout df =
     \<lparr>title = lit ''Timeline DUIMP Out 2024 - Dez 2025'',
      xaxis_title = lit ''Data'',
      yaxis_title = lit ''Fases'',
      legend_orientation = lit ''h'',
      legend_yanchor = lit ''bottom'',
      legend_xanchor = lit ''center'',
      xaxis_type = lit ''date'',
      xaxis_tickformat = lit ''%b %Y'',
      xaxis_range = None,
      yaxis_categoryorder = lit ''array'',
      yaxis_categoryarray = map nome df\<rparr>"

definition update_xaxes :: "layout \<Rightarrow> layout" where
  "update_xaxes l = l\<lparr>xaxis_range := Some [lit ''2024-09-15'', lit ''2026-01-15'']\<rparr>"

definition make_figure :: "('d, 'd) row list \<Rightarrow> 'd figure" where
  "make_figure df = \<lparr>fig_data = add_traces df, fig_layout = update_xaxes (update_layout df)\<rparr>"

text \<open>
  The script from the literal data to the figure it saves. \<open>pd.DataFrame(data["fases"])\<close>
  makes one row per record, in order, with the six keys as columns (the constructor is
  \<open>DataFrame_records\<close> below), so the frame is the list of the records. Without any
  record the frame has no columns, and \<open>df['inicio']\<close> raises \<open>KeyError\<close>.
\<close>

definition chart_script :: "(str \<Rightarrow> error + 'd) \<Rightarrow> (str, str) fase list \<Rightarrow> error + 'd figure" where
  "chart_script parse records =
     (if records = [] then Inl KeyError
      else
        (case to_datetime_inicio parse records of
           Inl e \<Rightarrow> Inl e
         | Inr df1 \<Rightarrow>
             (case to_datetime_fim parse df1 of
                Inl e \<Rightarrow> Inl e
              | Inr df2 \<Rightarrow> Inr (make_figure (map_status_colors df2)))))"

text \<open>
  The legend of a figure shows the traces whose \<open>showlegend\<close> is set, in trace order.
\<close>

definition legend :: "'d scatter list \<Rightarrow> 'd scatter list" where
  "legend traces = filter showlegend traces"


text \<open>
  The spec's de-duplication, in its own words: going through the rows in input order, a
  row is kept when no row before it has its status (first occurrence wins).
\<close>

fun first_per_status ::
    "str list \<Rightarrow> ('a, 'b, 'z) fase_scheme list \<Rightarrow> ('a, 'b, 'z) fase_scheme list" where
  "first_per_status seen [] = []"
| "first_per_status seen (r # rs) =
     (if status r \<in> set seen then first_per_status seen rs
      else r # first_per_status (status r # seen) rs)"

section \<open>script.py and script copy.py: the comparison tables\<close>

subsection \<open>Data frames\<close>

text \<open>
  A data frame: the column labels in order, and the cells row by row. A cell of a frame
  of strings is a \<open>str\<close>; where a key can be missing the cell is an option, \<open>None\<close>
  being NaN.
\<close>

record 'v DataFrame =
  columns :: "str list"
  rows :: "'v list list"

text \<open>
  \<open>pd.DataFrame(data)\<close> for a dictionary of columns (\<open>script.py\<close>, \<open>script copy.py\<close>): the
  keys in insertion order are the columns, row \<open>i\<close> takes the \<open>i\<close>-th entry of every
  column, and columns of different lengths raise \<open>ValueError\<close>. A dictionary is an
  association list in insertion order.
\<close>

definition DataFrame_columns :: "(str \<times> 'v list) list \<Rightarrow> error + 'v DataFrame" where
  "DataFrame_columns d =
     (case d of
        [] \<Rightarrow> Inr \<lparr>columns = [], rows = []\<rparr>
      | (k, col) # rest \<Rightarrow>
          if list_all (\<lambda>(k', col'). length col' = length col) rest
          then Inr \<lparr>columns = map fst d,
                    rows = map (\<lambda>i. map (\<lambda>(k', col'). col' ! i) d) [0..<length col]\<rparr>
          else Inl ValueError)"

text \<open>
  \<open>pd.DataFrame(records)\<close> for a list of dictionaries (\<open>chart_script.py\<close>): the columns
  are the keys of the records in the order in which they are first met, the rows are the
  records in order, and a record without a key has NaN in that column.
\<close>

fun uniques :: "'a list \<Rightarrow> 'a list \<Rightarrow> 'a list" where
  "uniques seen [] = []"
| "uniques seen (k # ks) =
     (if k \<in> set seen then uniques seen ks else k # uniques (k # seen) ks)"

definition DataFrame_records :: "(str \<times> 'v) list list \<Rightarrow> 'v option DataFrame" where
  "DataFrame_records records =
     (let cols = uniques [] (concat (map (map fst) records))
      in \<lparr>columns = cols, rows = map (\<lambda>r. map (map_of r) cols) records\<rparr>)"

text \<open>A phase of \<open>chart_script.py\<close> as the dictionary literal it is in the source.\<close>

definition fase_dict :: "(str, str) fase \<Rightarrow> (str \<times> str) list" where
  "fase_dict r =
     [(lit ''nome'', nome r), (lit ''periodo'', periodo r), (lit ''modal'', modal r),
      (lit ''status'', status r), (lit ''inicio'', inicio r), (lit ''fim'', fim r)]"

text \<open>The second table of \<open>script.py\<close>.\<close>

definition cronograma_data :: "(str \<times> str list) list" where
  "cronograma_data =
    [(lit ''Fase'',
       [lit ''Fase 1'',
        lit ''Fase 2 - Etapa 1'',
        lit ''Fase 2 - Etapa 2'',
        lit ''Fase 3 - Etapa 1'',
        lit ''Fase 3 - Etapa 2'']),
     (lit ''Per'' @ [0xED] @ lit ''odo'',
       [lit ''Outubro - Dezembro 2024'',
        lit ''Janeiro - Mar'' @ [0xE7] @ lit ''o 2025'',
        lit ''Abril - Junho 2025'',
        lit ''Julho - Setembro 2025'',
        lit ''Outubro - Dezembro 2025'']),
     (lit ''Modal/Opera'' @ [0xE7] @ [0xE3] @ lit ''o'',
       [lit ''Modal Mar'' @ [0xED] @ lit ''timo'',
        lit ''Modal A'' @ [0xE9] @ lit ''reo'',
        lit ''Modal A'' @ [0xE9] @ lit ''reo (continua'' @ [0xE7] @ [0xE3] @ lit ''o)'',
        lit ''Modal Terrestre'',
        lit ''Zona Franca de Manaus (ZFM)'']),
     (lit ''Caracter'' @ [0xED] @ lit ''sticas'',
       [lit ''Importa'' @ [0xE7] @ [0xF5] @ lit ''es sem licenciamento nos regimes RECOF, REPETRO e Admiss'' @ [0xE3] @ lit ''o Tempor'' @ [0xE1] @ lit ''ria'',
        lit ''Opera'' @ [0xE7] @ [0xF5] @ lit ''es com controle administrativo, Drawback, recolhimento integral de tributos'',
        lit ''Expans'' @ [0xE3] @ lit ''o para '' @ [0xF3] @ lit ''rg'' @ [0xE3] @ lit ''os anuentes - Etapa 2'',
        lit ''Importa'' @ [0xE7] @ [0xF5] @ lit ''es via fronteiras terrestres'',
        lit ''Opera'' @ [0xE7] @ [0xF5] @ lit ''es sob regime da Zona Franca de Manaus'']),
     (lit ''Status'',
       [lit ''IMPLEMENTADO'',
        lit ''IMPLEMENTADO'',
        lit ''EM ANDAMENTO'',
        lit ''EM ANDAMENTO'',
        lit ''PREVISTO''])]"

subsection \<open>Writing CSV\<close>














subsection \<open>Reading CSV\<close>












section \<open>Properties of the timeline chart\<close>

subsection \<open>Auxiliary facts\<close>

lemma sequence_Inr: "sequence xs = Inr ys \<Longrightarrow> xs = map Inr ys"
  by (induction xs arbitrary: ys rule: sequence.induct) (auto split: sum.splits)

lemma sequence_map_Inr: "sequence (map Inr ys) = Inr ys"
  by (induction ys) auto

lemma map_eq_fields:
  assumes "map f xs = map g ys" and "\<And>x y. f x = g y \<Longrightarrow> h x = k y"
  shows "map h xs = map k ys"
  using assms(1)
proof (induction xs arbitrary: ys)
  case Nil then show ?case by simp
next
  case (Cons x xs)
  then obtain y ys' where "ys = y # ys'" "f x = g y" "map f xs = map g ys'" by auto
  with Cons.IH assms(2) show ?case by simp
qed

lemma add_traces_snoc: "add_traces (df @ [r]) = add_trace (add_traces df) r"
  by (simp add: add_traces_def)

lemma add_traces_Nil: "add_traces [] = []"
  by (simp add: add_traces_def)

lemma name_add_traces: "map name (add_traces df) = map status df"
  by (induction df rule: rev_induct) (simp_all add: add_traces_snoc add_traces_Nil add_trace_def)

lemma hover_add_traces: "map hovertemplate (add_traces df) = map hover df"
  by (induction df rule: rev_induct) (simp_all add: add_traces_snoc add_traces_Nil add_trace_def)

lemma x_add_traces: "map scatter_x (add_traces df) = map (\<lambda>r. [inicio r, fim r]) df"
  by (induction df rule: rev_induct) (simp_all add: add_traces_snoc add_traces_Nil add_trace_def)

lemma first_per_status_snoc:
  "first_per_status seen (df @ [r]) =
     first_per_status seen df @
       (if status r \<in> set seen \<union> set (map status df) then [] else [r])"
  by (induction df arbitrary: seen) auto

lemma set_first_per_status:
  "status ` set (first_per_status seen df) = status ` set df - set seen"
  by (induction df arbitrary: seen) auto

lemma distinct_first_per_status:
  "distinct (map status (first_per_status seen df))"
proof (induction df arbitrary: seen)
  case Nil show ?case by simp
next
  case (Cons r df)
  have "status r \<notin> status ` set (first_per_status (status r # seen) df)"
    by (simp add: set_first_per_status)
  with Cons show ?case by simp
qed

lemma legend_add_traces: "legend (add_traces df) = add_traces (first_per_status [] df)"
proof (induction df rule: rev_induct)
  case Nil
  show ?case by (simp add: add_traces_Nil legend_def)
next
  case (snoc r df)
  show ?case
  proof (cases "status r \<in> set (map status df)")
    case True
    then show ?thesis
      using snoc by (simp add: add_traces_snoc first_per_status_snoc add_trace_def legend_def name_add_traces)
  next
    case False
    then have "status r \<notin> set (map status (first_per_status [] df))"
      by (simp add: set_first_per_status)
    with False show ?thesis
      using snoc
      by (simp add: add_traces_snoc first_per_status_snoc add_trace_def legend_def name_add_traces)
  qed
qed

lemma set_inicio_Inr:
  assumes "set_inicio r v = Inr y"
  shows "nome y = nome r" "periodo y = periodo r" "modal y = modal r" "status y = status r"
    "fim y = fim r" "v = Inr (inicio y)"
  using assms by (auto simp: set_inicio_def split: sum.splits)

lemma set_fim_Inr:
  assumes "set_fim r v = Inr y"
  shows "nome y = nome r" "periodo y = periodo r" "modal y = modal r" "status y = status r"
    "inicio y = inicio r" "v = Inr (fim y)"
  using assms by (auto simp: set_fim_def split: sum.splits)

lemma chart_script_Inr:
  assumes "chart_script parse records = Inr fig"
  shows "\<exists>df. fig = make_figure df
     \<and> map nome df = map nome records \<and> map periodo df = map periodo records
     \<and> map modal df = map modal records \<and> map status df = map status records
     \<and> map (\<lambda>r. Inr (inicio r)) df = map (\<lambda>r. parse (inicio r)) records
     \<and> map (\<lambda>r. Inr (fim r)) df = map (\<lambda>r. parse (fim r)) records
     \<and> map color df = map (\<lambda>r. resolve_color (status r)) records"
proof -
  from assms obtain df1 df2 where
    1: "to_datetime_inicio parse records = Inr df1" and
    2: "to_datetime_fim parse df1 = Inr df2" and
    3: "fig = make_figure (map_status_colors df2)"
    by (auto simp: chart_script_def split: sum.splits if_splits)
  from 1 have a: "map (\<lambda>r. set_inicio r (parse (inicio r))) records = map Inr df1"
    by (simp add: to_datetime_inicio_def sequence_Inr)
  from 2 have b: "map (\<lambda>r. set_fim r (parse (fim r))) df1 = map Inr df2"
    by (simp add: to_datetime_fim_def sequence_Inr)
  note A = map_eq_fields [OF a] and B = map_eq_fields [OF b]
  have n: "map nome df2 = map nome records"
    using A [of nome nome] B [of nome nome] by (simp add: set_inicio_Inr set_fim_Inr)
  have p: "map periodo df2 = map periodo records"
    using A [of periodo periodo] B [of periodo periodo] by (simp add: set_inicio_Inr set_fim_Inr)
  have m: "map modal df2 = map modal records"
    using A [of modal modal] B [of modal modal] by (simp add: set_inicio_Inr set_fim_Inr)
  have s: "map status df2 = map status records"
    using A [of status status] B [of status status] by (simp add: set_inicio_Inr set_fim_Inr)
  have "map (\<lambda>r. parse (inicio r)) records = map (\<lambda>r. Inr (inicio r)) df1"
    by (rule A) (simp add: set_inicio_Inr(6) [symmetric])
  moreover have "map (\<lambda>r. Inr (inicio r) :: error + 'a) df1 = map (\<lambda>r. Inr (inicio r)) df2"
    by (rule B) (simp add: set_fim_Inr)
  ultimately have i: "map (\<lambda>r. Inr (inicio r)) df2 = map (\<lambda>r. parse (inicio r)) records"
    by simp
  have "map (\<lambda>r. parse (fim r)) records = map (\<lambda>r. parse (fim r)) df1"
    by (rule A) (simp add: set_inicio_Inr)
  moreover have "map (\<lambda>r. parse (fim r)) df1 = map (\<lambda>r. Inr (fim r)) df2"
    by (rule B) (simp add: set_fim_Inr(6) [symmetric])
  ultimately have f: "map (\<lambda>r. Inr (fim r)) df2 = map (\<lambda>r. parse (fim r)) records"
    by simp
  have c: "map color (map_status_colors df2) = map (\<lambda>r. resolve_color (status r)) records"
    using map_eq_fields [of status df2 status records "\<lambda>r. resolve_color (status r)" "\<lambda>r. resolve_color (status r)"] s
    by (simp add: map_status_colors_def add_color_def o_def)
  have k: "map nome (map_status_colors df2) = map nome df2"
      "map periodo (map_status_colors df2) = map periodo df2"
      "map modal (map_status_colors df2) = map modal df2"
      "map status (map_status_colors df2) = map status df2"
      "map (\<lambda>r. Inr (inicio r) :: error + 'a) (map_status_colors df2) = map (\<lambda>r. Inr (inicio r)) df2"
      "map (\<lambda>r. Inr (fim r) :: error + 'a) (map_status_colors df2) = map (\<lambda>r. Inr (fim r)) df2"
    by (simp_all add: map_status_colors_def add_color_def o_def)
  show ?thesis
    by (rule exI [of _ "map_status_colors df2"]) (simp only: 3 n p m s i f c k simp_thms)
qed

lemma map_hover_eq:
  assumes "map modal df = map modal records" and "map status df = map status records"
    and "map periodo df = map periodo records"
  shows "map hover df = map hover records"
  using assms
proof (induction df arbitrary: records)
  case Nil
  then show ?case by simp
next
  case (Cons r df)
  then obtain q qs where "records = q # qs" by (cases records) auto
  with Cons show ?case by (simp add: hover_def)
qed

lemma first_per_status_cong:
  assumes "map status xs = map status ys" and "map g xs = map h ys"
  shows "map g (first_per_status seen xs) = map h (first_per_status seen ys)"
  using assms
proof (induction xs arbitrary: ys seen)
  case Nil
  then show ?case by simp
next
  case (Cons x xs)
  then obtain y ys' where "ys = y # ys'" by (cases ys) auto
  with Cons show ?case by simp
qed

lemma y_add_traces: "map scatter_y (add_traces df) = map (\<lambda>r. [nome r, nome r]) df"
  by (induction df rule: rev_induct) (simp_all add: add_traces_snoc add_traces_Nil add_trace_def)

lemma color_add_traces: "map line_color (add_traces df) = map color df"
  "map marker_color (add_traces df) = map color df"
  by (induction df rule: rev_induct) (simp_all add: add_traces_snoc add_traces_Nil add_trace_def)

lemmas chart_eval = chart_script_def to_datetime_inicio_def to_datetime_fim_def
  set_inicio_def set_fim_def lit_def digit_def days_in_month_def leap_year_def

subsection \<open>The status colors\<close>

text \<open>
  Claim C7. Each of the three known statuses resolves to its fixed color:
  \<open>Implementado\<close> to \<open>#2E8B57\<close>, \<open>Em Andamento\<close> to \<open>#1FB8CD\<close> and \<open>Previsto\<close> to
  \<open>#D2BA4C\<close>. The color column of the data frame is the lookup applied to the status
  column, so two rows with the same status never get different colors.
\<close>

theorem known_status_colors:
  "resolve_color (lit ''Implementado'') = Some (lit ''#2E8B57'')
   \<and> resolve_color (lit ''Em Andamento'') = Some (lit ''#1FB8CD'')
   \<and> resolve_color (lit ''Previsto'') = Some (lit ''#D2BA4C'')
   \<and> map color (map_status_colors df) = map (\<lambda>r. resolve_color (status r)) df"
  by (simp add: resolve_color_def status_colors_def lit_def map_status_colors_def add_color_def)




subsection \<open>The legend\<close>

text \<open>
  Claim C2. Whenever the script builds a figure from a sequence of phase records, there
  is one trace per record, named by its status, and the legend holds each distinct
  status exactly once: its entries are the statuses of the records that are the first
  with their status, in input order, and each entry is the segment of that first record.
\<close>

theorem legend_first_occurrence:
  assumes "chart_script parse records = Inr fig"
  shows "length (fig_data fig) = length records
    \<and> map name (fig_data fig) = map status records
    \<and> map name (legend (fig_data fig)) = map status (first_per_status [] records)
    \<and> distinct (map name (legend (fig_data fig)))
    \<and> set (map name (legend (fig_data fig))) = set (map status records)
    \<and> map scatter_y (legend (fig_data fig)) =
           map (\<lambda>r. [nome r, nome r]) (first_per_status [] records)"
proof -
  from chart_script_Inr [OF assms] obtain df where
    fig: "fig = make_figure df" and n: "map nome df = map nome records"
    and s: "map status df = map status records"
    by blast
  have d: "fig_data fig = add_traces df"
    by (simp add: fig make_figure_def)
  have l: "legend (fig_data fig) = add_traces (first_per_status [] df)"
    by (simp add: d legend_add_traces)
  have 2: "map name (fig_data fig) = map status records"
    by (simp add: d name_add_traces s)
  from 2 have 1: "length (fig_data fig) = length records"
    by (metis length_map)
  have 3: "map name (legend (fig_data fig)) = map status (first_per_status [] records)"
    by (simp add: l name_add_traces first_per_status_cong [OF s s])
  have 4: "distinct (map name (legend (fig_data fig)))"
    by (simp only: 3 distinct_first_per_status)
  have 5: "set (map name (legend (fig_data fig))) = set (map status records)"
    using set_first_per_status [of "[]" records] by (simp add: 3)
  have "map (\<lambda>r. [nome r, nome r]) df = map (\<lambda>r. [nome r, nome r]) records"
    using n by (induction df arbitrary: records) auto
  then have 6: "map scatter_y (legend (fig_data fig)) =
           map (\<lambda>r. [nome r, nome r]) (first_per_status [] records)"
    by (simp add: l y_add_traces first_per_status_cong [OF s])
  from 1 2 3 4 5 6 show ?thesis
    by (intro conjI)
qed

text \<open>
  The spec's example: the two phases \<open>Fase 1\<close> and \<open>Fase 2A\<close>, both \<open>Implementado\<close>, give
  two segments and the single legend entry \<open>Implementado\<close>.
\<close>

theorem legend_first_occurrence_witness:
  "\<not> isl (chart_script iso_date (take 2 fases))
   \<and> length (fig_data (projr (chart_script iso_date (take 2 fases)))) = 2
   \<and> map name (legend (fig_data (projr (chart_script iso_date (take 2 fases)))))
       = [lit ''Implementado'']"
proof -
  have ok: "\<not> isl (chart_script iso_date (take 2 fases))"
    by (simp add: fases_def chart_eval)
  then have h: "chart_script iso_date (take 2 fases)
      = Inr (projr (chart_script iso_date (take 2 fases)))"
    by simp
  have "map status (first_per_status [] (take 2 fases)) = [lit ''Implementado'']"
    by (simp add: fases_def lit_def)
  moreover have "length (take 2 fases) = 2"
    by (simp add: fases_def)
  ultimately show ?thesis
    using ok legend_first_occurrence [OF h] by simp
qed

subsection \<open>Date order\<close>

text \<open>
  Claim C3, as the spec states it, fails: the script never compares the two dates. A
  phase that starts on 2025-03-31 and ends on 2025-01-01 is converted and drawn like any
  other, as a segment from its start to its end.
\<close>

theorem date_order_counterexample:
  "iso_date (lit ''2025-03-31'') = Inr (2025, 3, 31)
   \<and> iso_date (lit ''2025-01-01'') = Inr (2025, 1, 1)
   \<and> ((2025, 1, 1) :: timestamp) < (2025, 3, 31)
   \<and> \<not> isl (chart_script iso_date
        [\<lparr>nome = lit ''Fase 2A'', periodo = lit ''Jan-Mar 2025'', modal = lit ''Modal Terrestre'',
          status = lit ''Implementado'', inicio = lit ''2025-03-31'', fim = lit ''2025-01-01''\<rparr>])
   \<and> map scatter_x (fig_data (projr (chart_script iso_date
        [\<lparr>nome = lit ''Fase 2A'', periodo = lit ''Jan-Mar 2025'', modal = lit ''Modal Terrestre'',
          status = lit ''Implementado'', inicio = lit ''2025-03-31'', fim = lit ''2025-01-01''\<rparr>])))
       = [[(2025, 3, 31), (2025, 1, 1)]]"
  by (simp add: chart_eval make_figure_def map_status_colors_def add_color_def
      add_traces_def add_trace_def)

text \<open>
  Claim C3, amended. The script makes no date-order check. For one or more phases whose
  statuses are in the color table, whenever every start and end string converts, the
  figure is built with a colored trace for every phase, and each phase is drawn as the
  segment from its start date to its end date as given, whichever of the two is later.
\<close>

theorem no_date_order_check:
  assumes "map (\<lambda>r. parse (inicio r)) records = map Inr starts"
    and "map (\<lambda>r. parse (fim r)) records = map Inr ends"
    and "list_all (\<lambda>r. resolve_color (status r) \<noteq> None) records"
    and "records \<noteq> []"
  shows "\<exists>fig. chart_script parse records = Inr fig
     \<and> map scatter_x (fig_data fig) = map2 (\<lambda>a b. [a, b]) starts ends
     \<and> list_all (\<lambda>t. line_color t \<noteq> None) (fig_data fig)"
proof -
  define df1 where "df1 = map2 (\<lambda>r d.
     \<lparr>nome = nome r, periodo = periodo r, modal = modal r, status = status r,
      inicio = d, fim = fim r\<rparr>) records starts"
  define df2 where "df2 = map2 (\<lambda>r d.
     \<lparr>nome = nome r, periodo = periodo r, modal = modal r, status = status r,
      inicio = inicio r, fim = d\<rparr>) df1 ends"
  have l1: "length starts = length records" and l2: "length ends = length records"
    using assms by (metis length_map)+
  have "map (\<lambda>r. set_inicio r (parse (inicio r))) records = map Inr df1"
    using l1 assms(1) unfolding df1_def
    by (induction records starts rule: list_induct2') (auto simp: set_inicio_def)
  then have 1: "to_datetime_inicio parse records = Inr df1"
    by (simp add: to_datetime_inicio_def sequence_map_Inr)
  have f1: "map fim df1 = map fim records"
    using l1 unfolding df1_def by (induction records starts rule: list_induct2') auto
  have "map (\<lambda>r. parse (fim r)) df1 = map Inr ends"
    using assms(2) map_eq_fields [of fim df1 fim records "\<lambda>r. parse (fim r)" "\<lambda>r. parse (fim r)"] f1
    by simp
  moreover have l3: "length ends = length df1"
    using l1 l2 by (simp add: df1_def)
  ultimately have "map (\<lambda>r. set_fim r (parse (fim r))) df1 = map Inr df2"
    unfolding df2_def
    by (induction df1 ends rule: list_induct2') (auto simp: set_fim_def)
  then have 2: "to_datetime_fim parse df1 = Inr df2"
    by (simp add: to_datetime_fim_def sequence_map_Inr)
  have i1: "map inicio df1 = starts"
    using l1 unfolding df1_def by (induction records starts rule: list_induct2') auto
  have "length df1 = length ends"
    using l3 by simp
  then have "map (\<lambda>r. [inicio r, fim r]) (map2 (\<lambda>r d.
     \<lparr>nome = nome r, periodo = periodo r, modal = modal r, status = status r,
      inicio = inicio r, fim = d\<rparr>) df1 ends) = map2 (\<lambda>a b. [a, b]) (map inicio df1) ends"
    by (induction df1 ends rule: list_induct2) auto
  then have x: "map (\<lambda>r. [inicio r, fim r]) df2 = map2 (\<lambda>a b. [a, b]) starts ends"
    by (simp add: df2_def i1)
  have c: "chart_script parse records = Inr (make_figure (map_status_colors df2))"
    by (simp add: chart_script_def 1 2 assms(4))
  have "map scatter_x (fig_data (make_figure (map_status_colors df2)))
      = map2 (\<lambda>a b. [a, b]) starts ends"
    using x by (simp add: make_figure_def x_add_traces map_status_colors_def add_color_def o_def)
  moreover have "list_all (\<lambda>t. line_color t \<noteq> None)
      (fig_data (make_figure (map_status_colors df2)))"
  proof -
    from chart_script_Inr [OF c] obtain df where
      "make_figure (map_status_colors df2) = make_figure df"
      and k: "map color df = map (\<lambda>r. resolve_color (status r)) records"
      by blast
    then have "map line_color (fig_data (make_figure (map_status_colors df2)))
        = map (\<lambda>r. resolve_color (status r)) records"
      by (simp add: make_figure_def color_add_traces)
    then have "list_all (\<lambda>v. v \<noteq> None)
        (map line_color (fig_data (make_figure (map_status_colors df2))))"
      using assms(3) by (simp add: list_all_iff)
    then show ?thesis
      by (simp add: list_all_iff)
  qed
  ultimately show ?thesis
    using c by blast
qed

theorem no_date_order_check_witness:
  "map (\<lambda>r. iso_date (inicio r))
      [\<lparr>nome = lit ''Fase 9'', periodo = lit ''Dez-Jun 2025'', modal = lit ''Modal Postal'',
        status = lit ''Previsto'', inicio = lit ''2025-12-01'', fim = lit ''2025-06-30''\<rparr>]
     = map Inr [(2025, 12, 1)]
   \<and> map (\<lambda>r. iso_date (fim r))
      [\<lparr>nome = lit ''Fase 9'', periodo = lit ''Dez-Jun 2025'', modal = lit ''Modal Postal'',
        status = lit ''Previsto'', inicio = lit ''2025-12-01'', fim = lit ''2025-06-30''\<rparr>]
     = map Inr [(2025, 6, 30)]
   \<and> ((2025, 6, 30) :: timestamp) < (2025, 12, 1)
   \<and> list_all (\<lambda>r. resolve_color (status r) \<noteq> None)
      [\<lparr>nome = lit ''Fase 9'', periodo = lit ''Dez-Jun 2025'', modal = lit ''Modal Postal'',
        status = lit ''Previsto'', inicio = lit ''2025-12-01'', fim = lit ''2025-06-30''\<rparr>]
   \<and> (\<exists>fig. chart_script iso_date
      [\<lparr>nome = lit ''Fase 9'', periodo = lit ''Dez-Jun 2025'', modal = lit ''Modal Postal'',
        status = lit ''Previsto'', inicio = lit ''2025-12-01'', fim = lit ''2025-06-30''\<rparr>]
       = Inr fig
     \<and> map scatter_x (fig_data fig) = map2 (\<lambda>a b. [a, b]) [(2025, 12, 1)] [(2025, 6, 30)]
     \<and> list_all (\<lambda>t. line_color t \<noteq> None) (fig_data fig))"
proof -
  let ?r = "\<lparr>nome = lit ''Fase 9'', periodo = lit ''Dez-Jun 2025'', modal = lit ''Modal Postal'',
        status = lit ''Previsto'', inicio = lit ''2025-12-01'', fim = lit ''2025-06-30''\<rparr>"
  have a: "map (\<lambda>r. iso_date (inicio r)) [?r] = map Inr [(2025, 12, 1)]"
    by (simp add: chart_eval)
  have b: "map (\<lambda>r. iso_date (fim r)) [?r] = map Inr [(2025, 6, 30)]"
    by (simp add: chart_eval)
  have c: "((2025, 6, 30) :: timestamp) < (2025, 12, 1)"
    by simp
  have d: "list_all (\<lambda>r. resolve_color (status r) \<noteq> None) [?r]"
    by (simp add: resolve_color_def status_colors_def lit_def)
  from a b c d no_date_order_check [OF a b d] show ?thesis
    by blast
qed

subsection \<open>The axes\<close>

text \<open>
  Claim C4. Whatever the phases and their dates, the x axis of the figure the script
  builds has the range from 2024-09-15 to 2026-01-15, the bounds the script supplies:
  the range is set explicitly and is not derived from the dates of the data.
\<close>

theorem xaxis_range_fixed:
  assumes "chart_script parse records = Inr fig"
  shows "xaxis_range (fig_layout fig) = Some [lit ''2024-09-15'', lit ''2026-01-15'']"
proof -
  from chart_script_Inr [OF assms] obtain df where "fig = make_figure df"
    by blast
  then show ?thesis
    by (simp add: make_figure_def update_xaxes_def)
qed

text \<open>
  On the script's own data every date lies inside the bounds, the earliest start is
  2024-10-01 and the latest end 2025-12-31, and the range is the bounds.
\<close>

theorem xaxis_range_fixed_witness:
  "\<not> isl (chart_script iso_date fases)
   \<and> map scatter_x (fig_data (projr (chart_script iso_date fases)))
       = [[(2024, 10, 1), (2024, 12, 31)], [(2025, 1, 1), (2025, 3, 31)],
          [(2025, 4, 1), (2025, 6, 30)], [(2025, 7, 1), (2025, 9, 30)],
          [(2025, 10, 1), (2025, 12, 31)]]
   \<and> xaxis_range (fig_layout (projr (chart_script iso_date fases)))
       = Some [lit ''2024-09-15'', lit ''2026-01-15'']"
proof -
  have ok: "\<not> isl (chart_script iso_date fases)"
    by (simp add: fases_def chart_eval)
  then have h: "chart_script iso_date fases = Inr (projr (chart_script iso_date fases))"
    by simp
  have "map scatter_x (fig_data (projr (chart_script iso_date fases)))
       = [[(2024, 10, 1), (2024, 12, 31)], [(2025, 1, 1), (2025, 3, 31)],
          [(2025, 4, 1), (2025, 6, 30)], [(2025, 7, 1), (2025, 9, 30)],
          [(2025, 10, 1), (2025, 12, 31)]]"
    by (simp add: fases_def chart_eval make_figure_def x_add_traces map_status_colors_def
        add_color_def)
  with ok xaxis_range_fixed [OF h] show ?thesis
    by simp
qed

text \<open>
  Claim C5. The category order of the y axis is the explicit array of the phase names
  in the order of the input records, and the segments lie on the rows of their names in
  that same order; nothing is sorted.
\<close>

theorem yaxis_input_order:
  assumes "chart_script parse records = Inr fig"
  shows "yaxis_categoryorder (fig_layout fig) = lit ''array''
    \<and> yaxis_categoryarray (fig_layout fig) = map nome records
    \<and> map scatter_y (fig_data fig) = map (\<lambda>r. [nome r, nome r]) records"
proof -
  from chart_script_Inr [OF assms] obtain df where
    fig: "fig = make_figure df" and n: "map nome df = map nome records"
    by blast
  have 1: "yaxis_categoryorder (fig_layout fig) = lit ''array''"
    by (simp add: fig make_figure_def update_xaxes_def update_layout_def)
  have 2: "yaxis_categoryarray (fig_layout fig) = map nome records"
    by (simp add: fig make_figure_def update_xaxes_def update_layout_def n)
  have "map (\<lambda>r. [nome r, nome r]) df = map (\<lambda>r. [nome r, nome r]) records"
    using n by (induction df arbitrary: records) auto
  then have 3: "map scatter_y (fig_data fig) = map (\<lambda>r. [nome r, nome r]) records"
    by (simp add: fig make_figure_def y_add_traces)
  from 1 2 3 show ?thesis
    by (intro conjI)
qed

text \<open>
  The script's records in reverse order, which is neither the alphabetical order of the
  names nor the order of the dates: the axis keeps the order of the input.
\<close>

theorem yaxis_input_order_witness:
  "\<not> isl (chart_script iso_date (rev fases))
   \<and> yaxis_categoryarray (fig_layout (projr (chart_script iso_date (rev fases))))
       = [lit ''Fase 3B'', lit ''Fase 3A'', lit ''Fase 2B'', lit ''Fase 2A'', lit ''Fase 1'']"
proof -
  have ok: "\<not> isl (chart_script iso_date (rev fases))"
    by (simp add: fases_def chart_eval)
  then have h: "chart_script iso_date (rev fases)
      = Inr (projr (chart_script iso_date (rev fases)))"
    by simp
  have "map nome (rev fases)
      = [lit ''Fase 3B'', lit ''Fase 3A'', lit ''Fase 2B'', lit ''Fase 2A'', lit ''Fase 1'']"
    by (simp add: fases_def)
  with ok yaxis_input_order [OF h] show ?thesis
    by simp
qed

subsection \<open>The hover text\<close>

lemma hover_parts:
  "hover r = (lit ''<b>%{y}</b><br>'' @ lit ''Modal: '') @ modal r @
     (lit ''<br>'' @ lit ''Status: '' @ status r @ lit ''<br>'' @ lit ''Per'' @ [0xED]
        @ lit ''odo: '' @ periodo r @ lit ''<br>'' @ lit ''<extra></extra>'')"
  "hover r = (lit ''<b>%{y}</b><br>'' @ lit ''Modal: '' @ modal r @ lit ''<br>''
        @ lit ''Status: '') @ status r @
     (lit ''<br>'' @ lit ''Per'' @ [0xED] @ lit ''odo: '' @ periodo r @ lit ''<br>''
        @ lit ''<extra></extra>'')"
  "hover r = (lit ''<b>%{y}</b><br>'' @ lit ''Modal: '' @ modal r @ lit ''<br>''
        @ lit ''Status: '' @ status r @ lit ''<br>'' @ lit ''Per'' @ [0xED] @ lit ''odo: '')
      @ periodo r @ (lit ''<br>'' @ lit ''<extra></extra>'')"
  unfolding hover_def by (simp_all only: append.assoc)

lemma hover_sublists:
  "sublist (modal r) (hover r)" "sublist (status r) (hover r)" "sublist (periodo r) (hover r)"
proof -
  show "sublist (modal r) (hover r)"
    by (subst hover_parts(1)) (rule sublist_appendI)
  show "sublist (status r) (hover r)"
    by (subst hover_parts(2)) (rule sublist_appendI)
  show "sublist (periodo r) (hover r)"
    by (subst hover_parts(3)) (rule sublist_appendI)
qed

lemma list_all2_map_eq:
  assumes "map f ts = map g rs" and "\<And>r. P r (g r)"
  shows "list_all2 (\<lambda>r t. P r (f t)) rs ts"
  using assms(1)
proof (induction ts arbitrary: rs)
  case Nil
  then show ?case by simp
next
  case (Cons t ts)
  then obtain q qs where "rs = q # qs" by (cases rs) auto
  with Cons assms(2) show ?case by auto
qed

text \<open>
  Claim C9. The hover template of each trace is the fixed text with the modal, the
  status and the period label of its phase record inserted as they are: each of the
  three values is a contiguous part of the template.
\<close>

theorem hover_verbatim:
  assumes "chart_script parse records = Inr fig"
  shows "map hovertemplate (fig_data fig) =
      map (\<lambda>r. lit ''<b>%{y}</b><br>'' @ lit ''Modal: '' @ modal r @ lit ''<br>''
             @ lit ''Status: '' @ status r @ lit ''<br>''
             @ lit ''Per'' @ [0xED] @ lit ''odo: '' @ periodo r @ lit ''<br>''
             @ lit ''<extra></extra>'') records
    \<and> list_all2 (\<lambda>r t. sublist (modal r) (hovertemplate t)
             \<and> sublist (status r) (hovertemplate t)
             \<and> sublist (periodo r) (hovertemplate t)) records (fig_data fig)"
proof -
  from chart_script_Inr [OF assms] obtain df where
    fig: "fig = make_figure df" and m: "map modal df = map modal records"
    and s: "map status df = map status records" and p: "map periodo df = map periodo records"
    by blast
  have "map hovertemplate (fig_data fig) = map hover df"
    by (simp add: fig make_figure_def hover_add_traces)
  with map_hover_eq [OF m s p] have h: "map hovertemplate (fig_data fig) = map hover records"
    by simp
  have "hover = (\<lambda>r :: (str, str) fase. lit ''<b>%{y}</b><br>'' @ lit ''Modal: '' @ modal r @ lit ''<br>''
             @ lit ''Status: '' @ status r @ lit ''<br>''
             @ lit ''Per'' @ [0xED] @ lit ''odo: '' @ periodo r @ lit ''<br>''
             @ lit ''<extra></extra>'')"
    unfolding hover_def by (simp only: append.assoc)
  with h have 1: "map hovertemplate (fig_data fig) =
      map (\<lambda>r. lit ''<b>%{y}</b><br>'' @ lit ''Modal: '' @ modal r @ lit ''<br>''
             @ lit ''Status: '' @ status r @ lit ''<br>''
             @ lit ''Per'' @ [0xED] @ lit ''odo: '' @ periodo r @ lit ''<br>''
             @ lit ''<extra></extra>'') records"
    by simp
  have 2: "list_all2 (\<lambda>r t. sublist (modal r) (hovertemplate t)
             \<and> sublist (status r) (hovertemplate t)
             \<and> sublist (periodo r) (hovertemplate t)) records (fig_data fig)"
    by (rule list_all2_map_eq [OF h]) (simp only: hover_sublists simp_thms)
  from 1 2 show ?thesis
    by (intro conjI)
qed

text \<open>The first phase of the script's data, with its accented modal.\<close>

theorem hover_verbatim_witness:
  "\<not> isl (chart_script iso_date (take 1 fases))
   \<and> map hovertemplate (fig_data (projr (chart_script iso_date (take 1 fases))))
      = [lit ''<b>%{y}</b><br>Modal: Modal Mar'' @ [0xED] @ lit ''timo<br>Status: Implementado<br>Per''
         @ [0xED] @ lit ''odo: Out-Dez 2024<br><extra></extra>'']"
proof -
  have ok: "\<not> isl (chart_script iso_date (take 1 fases))"
    by (simp add: fases_def chart_eval)
  then have h: "chart_script iso_date (take 1 fases)
      = Inr (projr (chart_script iso_date (take 1 fases)))"
    by simp
  from ok hover_verbatim [OF h] show ?thesis
    by (simp add: fases_def lit_def)
qed

section \<open>Properties of the tables\<close>

subsection \<open>Building a data frame\<close>

lemma uniques_seen: "set ks \<subseteq> set seen \<Longrightarrow> uniques seen ks = []"
  by (induction ks) auto

lemma uniques_fresh:
  assumes "distinct ks" and "set ks \<inter> set seen = {}" and "set rest \<subseteq> set ks \<union> set seen"
  shows "uniques seen (ks @ rest) = ks"
  using assms
proof (induction ks arbitrary: seen)
  case Nil
  then show ?case by (simp add: uniques_seen)
next
  case (Cons k ks)
  have "uniques (k # seen) (ks @ rest) = ks"
    using Cons.prems by (intro Cons.IH) auto
  with Cons.prems show ?case by simp
qed

lemma concat_same_keys:
  assumes "list_all (\<lambda>r. map fst r = ks) records"
  shows "set (concat (map (map fst) records)) \<subseteq> set ks"
  using assms by (induction records) auto

lemma map_of_own_keys:
  "distinct (map fst r) \<Longrightarrow> map (map_of r) (map fst r) = map (\<lambda>(k, v). Some v) r"
proof (induction r)
  case Nil
  then show ?case by simp
next
  case (Cons p r)
  obtain k v where p: "p = (k, v)" by (cases p)
  from Cons.prems have "k \<notin> set (map fst r)" and d: "distinct (map fst r)"
    by (simp_all add: p)
  then have "map (map_of ((k, v) # r)) (map fst r) = map (map_of r) (map fst r)"
    by (intro map_cong) auto
  with Cons.IH [OF d] show ?case by (simp add: p)
qed

lemma DataFrame_records_uniform:
  assumes "list_all (\<lambda>r. map fst r = ks) records" and "distinct ks"
  shows "rows (DataFrame_records records) = map (map (\<lambda>(k, v). Some v)) records"
    and "records \<noteq> [] \<Longrightarrow> columns (DataFrame_records records) = ks"
proof -
  have cols: "uniques [] (concat (map (map fst) records)) = ks" if "records \<noteq> []"
  proof -
    from that obtain r rs where r: "records = r # rs" by (cases records) auto
    with assms(1) have "map fst r = ks" and "list_all (\<lambda>r. map fst r = ks) rs"
      by simp_all
    then have "concat (map (map fst) records) = ks @ concat (map (map fst) rs)"
      and "set (concat (map (map fst) rs)) \<subseteq> set ks \<union> set []"
      using concat_same_keys [of ks rs] by (simp_all add: r)
    with assms(2) show ?thesis
      by (simp add: uniques_fresh)
  qed
  then show "records \<noteq> [] \<Longrightarrow> columns (DataFrame_records records) = ks"
    by (simp add: DataFrame_records_def)
  show "rows (DataFrame_records records) = map (map (\<lambda>(k, v). Some v)) records"
  proof (cases "records = []")
    case True
    then show ?thesis by (simp add: DataFrame_records_def)
  next
    case False
    have "map (map_of r) ks = map (\<lambda>(k, v). Some v) r" if "r \<in> set records" for r
    proof -
      from that assms(1) have "map fst r = ks" by (simp add: list_all_iff)
      with assms(2) map_of_own_keys [of r] show ?thesis by simp
    qed
    with cols [OF False] show ?thesis
      by (simp add: DataFrame_records_def)
  qed
qed

lemma DataFrame_columns_uniform:
  assumes "list_all (\<lambda>c. length (snd c) = n) d" and "d \<noteq> []"
  shows "DataFrame_columns d =
     Inr \<lparr>columns = map fst d, rows = map (\<lambda>i. map (\<lambda>c. snd c ! i) d) [0..<n]\<rparr>"
proof -
  from assms(2) obtain k col rest where d: "d = (k, col) # rest"
    by (cases d) auto
  with assms(1) have n: "length col = n" and "list_all (\<lambda>c. length (snd c) = n) rest"
    by simp_all
  then have "list_all (\<lambda>(k', col'). length col' = length col) rest"
    by (simp add: list_all_iff case_prod_beta)
  then show ?thesis
    by (simp add: DataFrame_columns_def d n case_prod_beta)
qed

text \<open>
  Claim C8. A frame built from a sequence of records that all have the same fields, in
  the same order, has one row per record, the rows in the order of the records with the
  values of each record in field order, and the fields as its columns in their
  declaration order. A frame built from a dictionary of columns of one length \<open>n\<close>, as
  the export scripts do, has the keys as its columns in their order and \<open>n\<close> rows, the
  \<open>i\<close>-th row holding the \<open>i\<close>-th entry of every column.
\<close>

theorem build_table_preserves:
  "(list_all (\<lambda>r. map fst r = ks) records \<and> distinct ks \<longrightarrow>
      length (rows (DataFrame_records records)) = length records
      \<and> rows (DataFrame_records records) = map (map (\<lambda>(k, v). Some v)) records
      \<and> (records \<noteq> [] \<longrightarrow> columns (DataFrame_records records) = ks))
   \<and> (list_all (\<lambda>c. length (snd c) = n) d \<and> d \<noteq> [] \<longrightarrow>
      DataFrame_columns d =
        Inr \<lparr>columns = map fst d, rows = map (\<lambda>i. map (\<lambda>c. snd c ! i) d) [0..<n]\<rparr>)"
  using DataFrame_records_uniform [of ks records] DataFrame_columns_uniform [of n d]
  by simp

text \<open>
  The phases of \<open>chart_script.py\<close> as a list of dictionaries, and the schedule table of
  \<open>script.py\<close> as a dictionary of five columns of five entries.
\<close>

theorem build_table_preserves_witness:
  "list_all (\<lambda>r. map fst r = [lit ''nome'', lit ''periodo'', lit ''modal'', lit ''status'',
        lit ''inicio'', lit ''fim'']) (map fase_dict fases)
   \<and> distinct [lit ''nome'', lit ''periodo'', lit ''modal'', lit ''status'', lit ''inicio'',
        lit ''fim'']
   \<and> map fase_dict fases \<noteq> []
   \<and> length (rows (DataFrame_records (map fase_dict fases))) = 5
   \<and> columns (DataFrame_records (map fase_dict fases))
       = [lit ''nome'', lit ''periodo'', lit ''modal'', lit ''status'', lit ''inicio'', lit ''fim'']
   \<and> map (\<lambda>r. r ! 0) (rows (DataFrame_records (map fase_dict fases)))
       = map (\<lambda>r. Some (nome r)) fases
   \<and> list_all (\<lambda>c. length (snd c) = 5) cronograma_data
   \<and> cronograma_data \<noteq> []
   \<and> DataFrame_columns cronograma_data =
       Inr \<lparr>columns = map fst cronograma_data,
            rows = map (\<lambda>i. map (\<lambda>c. snd c ! i) cronograma_data) [0..<5]\<rparr>"
proof -
  let ?ks = "[lit ''nome'', lit ''periodo'', lit ''modal'', lit ''status'', lit ''inicio'',
        lit ''fim'']"
  have a: "list_all (\<lambda>r. map fst r = ?ks) (map fase_dict fases)"
    by (simp add: list_all_iff fase_dict_def)
  have b: "distinct ?ks"
    by (simp add: lit_def)
  have c: "map fase_dict fases \<noteq> []" and l: "length fases = 5"
    by (simp_all add: fases_def)
  have e: "list_all (\<lambda>c. length (snd c) = 5) cronograma_data"
    by (simp add: cronograma_data_def)
  have f: "cronograma_data \<noteq> []"
    by (simp add: cronograma_data_def)
  have g: "map (\<lambda>r. r ! 0) (map (map (\<lambda>(k, v). Some v)) (map fase_dict fases))
      = map (\<lambda>r. Some (nome r)) fases"
    by (simp add: fase_dict_def)
  from build_table_preserves [of ?ks "map fase_dict fases" 5 cronograma_data] a b c e f g l
  show ?thesis
    by simp
qed

subsection \<open>UTF-8\<close>















subsection \<open>Reading back what the writer wrote\<close>















subsection \<open>The round trip\<close>



subsection \<open>The layout of the file\<close>



end
